theory Spec2Isabelle
  imports Main "HOL-Library.AList"
begin

section \<open>Strings and falsy values of the host language\<close>

text \<open>
  A JavaScript string is modelled as a list of characters (one element per code unit).
  A value of type \<open>string | false\<close> is a \<open>string option\<close>, with \<open>None\<close> for \<open>false\<close>.
\<close>

definition slice :: "string \<Rightarrow> int \<Rightarrow> int \<Rightarrow> string" where
  \<comment> \<open>\<open>String.prototype.slice(b, e)\<close>: a negative index counts from the end, every index is
      clamped to the string. The integer \<open>-0\<close> is \<open>0\<close>, so \<open>slice(0, -0)\<close> is \<open>slice(0, 0)\<close>.\<close>
  "slice s b e =
     (let n = int (length s);
          from = (if b < 0 then max (n + b) 0 else min b n);
          to = (if e < 0 then max (n + e) 0 else min e n)
      in take (nat (to - from)) (drop (nat from) s))"

definition or_else :: "string option \<Rightarrow> string \<Rightarrow> string" where
  \<comment> \<open>\<open>r || d\<close> for \<open>r : string | false\<close>: both \<open>false\<close> and the empty string are falsy.\<close>
  "or_else r d = (case r of None \<Rightarrow> d | Some s \<Rightarrow> if s = [] then d else s)"

definition falsy :: "nat option \<Rightarrow> bool" where
  \<comment> \<open>\<open>!x\<close> for an offset \<open>x : number | null | undefined\<close>: undefined, null and 0 are falsy.\<close>
  "falsy x = (case x of None \<Rightarrow> True | Some k \<Rightarrow> k = 0)"

definition quote :: "string \<Rightarrow> string" where
  \<comment> \<open>The template literal \<open>'${newPath}'\<close>: the path between two single quotes.\<close>
  "quote newPath = CHR 0x27 # newPath @ [CHR 0x27]"

section \<open>Syntax nodes\<close>

text \<open>
  The two modules of the repository read the nodes of two parsers. The Babel parser tags a
  string literal \<open>StringLiteral\<close>; the ESTree parser of the second module tags every literal
  \<open>Literal\<close>, whose value is a string or something else (a number, a boolean, null, a
  regular expression). Offsets are \<open>number | null\<close> in Babel's types, hence optional.
\<close>

datatype js_value = StringValue string | OtherValue

datatype literal =
    StringLiteral "nat option" "nat option" string
  | Literal "nat option" "nat option" js_value

datatype expr =
    Lit literal
  | Identifier string
  | Import
  | OtherExpression

datatype node =
    CallExpression expr "expr list option"
  | ImportDeclaration literal
  | ExportAllDeclaration "literal option"
  | ExportNamedDeclaration "literal option"
  | OtherNode

fun lit_start :: "literal \<Rightarrow> nat option" where
  "lit_start (StringLiteral s e v) = s"
| "lit_start (Literal s e v) = s"

fun lit_end :: "literal \<Rightarrow> nat option" where
  "lit_end (StringLiteral s e v) = e"
| "lit_end (Literal s e v) = e"

fun lit_value :: "literal \<Rightarrow> js_value" where
  "lit_value (StringLiteral s e v) = StringValue v"
| "lit_value (Literal s e v) = v"

section \<open>The extension rewrite rule\<close>

text \<open>
  \<open>extname\<close> is imported from the platform's \<open>path\<close> module; it is a parameter of the model.
  \<open>extensions.hasOwnProperty(extension)\<close> is membership in the domain of the mapping.
\<close>

definition rewrite :: "(string \<Rightarrow> string) \<Rightarrow> string \<Rightarrow> (string \<rightharpoonup> string) \<Rightarrow> string option" where
  "rewrite extname input extensions =
     (let extension = extname input in
      case extensions extension of
        Some out \<Rightarrow> Some (slice input 0 (- int (length extension)) @ out)
      | None \<Rightarrow> None)"


definition extname_spec :: "string \<Rightarrow> string" where
  \<comment> \<open>Modelled from the spec: \<open>path.extname\<close> is not part of the repository. The spec gives it
      as the text following the last \<open>.\<close> in the final path segment, including the dot, and
      empty if there is none.\<close>
  "extname_spec p =
     (let segment = rev (takeWhile (\<lambda>c. c \<noteq> CHR ''/'') (rev p)) in
      if CHR ''.'' \<in> set segment
      then CHR ''.'' # rev (takeWhile (\<lambda>c. c \<noteq> CHR ''.'') (rev segment))
      else [])"

section \<open>The specifier extractors of the Babel-backed module\<close>

definition isEmpty :: "'a list option \<Rightarrow> bool" where
  \<comment> \<open>\<open>!array || array.length === 0\<close>\<close>
  "isEmpty array = (case array of None \<Rightarrow> True | Some xs \<Rightarrow> length xs = 0)"

definition isLiteral :: "expr option \<Rightarrow> bool" where
  \<comment> \<open>\<open>!!node && node.type === 'StringLiteral'\<close>\<close>
  "isLiteral node = (case node of Some (Lit (StringLiteral s e v)) \<Rightarrow> True | _ \<Rightarrow> False)"

fun getRequireSource :: "node \<Rightarrow> literal option" where
  "getRequireSource (CallExpression callee args) =
     (if isEmpty args then None
      else case args of
        Some (firstArg # more) \<Rightarrow>
          (if \<not> isLiteral (Some firstArg) then None
           else case firstArg of
             Lit l \<Rightarrow>
               (let isRequire = (case callee of Identifier name \<Rightarrow> name = ''require'' | _ \<Rightarrow> False)
                in if callee = Import \<or> isRequire then Some l else Some l)
           | _ \<Rightarrow> None)
      | _ \<Rightarrow> None)"
| "getRequireSource _ = None"

fun getImportSource :: "node \<Rightarrow> literal option" where
  "getImportSource (ImportDeclaration source) = Some source"
| "getImportSource _ = None"

fun node_source :: "node \<Rightarrow> literal option" where
  \<comment> \<open>the property read \<open>node.source\<close>\<close>
  "node_source (ImportDeclaration source) = Some source"
| "node_source (ExportAllDeclaration source) = source"
| "node_source (ExportNamedDeclaration source) = source"
| "node_source _ = None"

fun isStringLiteral :: "literal \<Rightarrow> bool" where
  \<comment> \<open>\<open>type === 'StringLiteral'\<close>, the \<open>NodeType.Literal\<close> of the Babel-backed module\<close>
  "isStringLiteral (StringLiteral s e v) = True"
| "isStringLiteral _ = False"

fun isESTreeLiteral :: "literal \<Rightarrow> bool" where
  \<comment> \<open>\<open>type === 'Literal'\<close>, the \<open>NodeType.Literal\<close> of the second module\<close>
  "isESTreeLiteral (Literal s e v) = True"
| "isESTreeLiteral _ = False"

definition getExportSource :: "node \<Rightarrow> literal option" where
  "getExportSource node =
     (case node_source node of
        None \<Rightarrow> None
      | Some source \<Rightarrow> if \<not> isStringLiteral source then None else Some source)"

fun isImportDeclaration :: "node \<Rightarrow> bool" where
  "isImportDeclaration (ImportDeclaration source) = True"
| "isImportDeclaration _ = False"

fun isCallExpression :: "node \<Rightarrow> bool" where
  "isCallExpression (CallExpression callee args) = True"
| "isCallExpression _ = False"

fun isExportAllDeclaration :: "node \<Rightarrow> bool" where
  "isExportAllDeclaration (ExportAllDeclaration source) = True"
| "isExportAllDeclaration _ = False"

fun isExportNamedDeclaration :: "node \<Rightarrow> bool" where
  "isExportNamedDeclaration (ExportNamedDeclaration source) = True"
| "isExportNamedDeclaration _ = False"

section \<open>The specifier extractors of the second module\<close>

fun getRequireSource_acorn :: "node \<Rightarrow> literal option" where
  "getRequireSource_acorn (CallExpression callee args) =
     (if (case callee of Identifier name \<Rightarrow> False | _ \<Rightarrow> True) \<or> isEmpty args then None
      else case args of
        Some (arg0 # more) \<Rightarrow>
          (if (case callee of Identifier name \<Rightarrow> name \<noteq> ''require'' | _ \<Rightarrow> True)
              \<or> (case arg0 of Lit l \<Rightarrow> \<not> isESTreeLiteral l | _ \<Rightarrow> True)
           then None
           else case arg0 of Lit l \<Rightarrow> Some l | _ \<Rightarrow> None)
      | _ \<Rightarrow> None)"
| "getRequireSource_acorn _ = None"

fun getImportSource_acorn :: "node \<Rightarrow> literal option" where
  "getImportSource_acorn (ImportDeclaration source) =
     (if \<not> isESTreeLiteral source then None else Some source)"
| "getImportSource_acorn _ = None"

definition getExportSource_acorn :: "node \<Rightarrow> literal option" where
  "getExportSource_acorn node =
     (if \<not> (isExportAllDeclaration node \<or> isExportNamedDeclaration node) then None
      else case node_source node of
        None \<Rightarrow> None
      | Some source \<Rightarrow> if \<not> isESTreeLiteral source then None else Some source)"

section \<open>The text patcher\<close>

record edit =
  edit_start :: "nat option"
  edit_end :: "nat option"
  replacementText :: string

record magic_string =
  original :: string
  edits :: "edit list"

definition MagicString :: "string \<Rightarrow> magic_string" where
  "MagicString text = \<lparr>original = text, edits = []\<rparr>"

definition overwrite :: "nat option \<Rightarrow> nat option \<Rightarrow> string \<Rightarrow> magic_string \<Rightarrow> magic_string" where
  \<comment> \<open>Modelled from the spec: the patcher (package \<open>magic-string\<close>) is not part of the
      repository; its \<open>overwrite(start, end, replacementText)\<close> records a rewrite edit. The
      offsets are recorded as they are passed.\<close>
  "overwrite start stop content ms =
     ms\<lparr>edits := edits ms @ [\<lparr>edit_start = start, edit_end = stop, replacementText = content\<rparr>]\<rparr>"

definition apply_edit :: "string \<Rightarrow> edit \<Rightarrow> string" where
  "apply_edit s ed =
     (case (edit_start ed, edit_end ed) of
        (Some a, Some b) \<Rightarrow> take a s @ replacementText ed @ drop b s
      | _ \<Rightarrow> s)"

definition toText :: "magic_string \<Rightarrow> string" where
  \<comment> \<open>Modelled from the spec: the patcher's final text replaces the original content of each
      recorded span by its replacement text and keeps all other text. The spans are applied
      from the last offset to the first, so that earlier offsets stay valid.\<close>
  "toText ms =
     foldl apply_edit (original ms)
       (rev (sort_key (\<lambda>ed. case edit_start ed of Some a \<Rightarrow> a | None \<Rightarrow> 0) (edits ms)))"

section \<open>The plugin\<close>

datatype error = PositionError | TypeError | ParseError

text \<open>
  The collaborators and options one plugin instance closes over: \<open>extname\<close> of the \<open>path\<close>
  module, the filter built by \<open>createFilter(include, exclude)\<close>, the option \<open>sourceMap\<close>, the
  option \<open>mappings\<close>, the parser followed by the walker (the nodes of the four visited kinds,
  in the order the walker hands them to the visitor, or the parser's failure), and the
  patcher's \<open>toString\<close> and \<open>generateMap\<close>.
\<close>

record 'm env =
  extname :: "string \<Rightarrow> string"
  filter_f :: "string option \<Rightarrow> bool"
  sourceMap :: "bool option"
  mappings :: "string \<rightharpoonup> string"
  parse_walk :: "string \<Rightarrow> error + node list"
  toString :: "magic_string \<Rightarrow> string"
  generateMap :: "magic_string \<Rightarrow> 'm"

definition sourceMaps :: "'m env \<Rightarrow> bool" where
  \<comment> \<open>\<open>options.sourceMap !== false\<close>\<close>
  "sourceMaps env = (sourceMap env \<noteq> Some False)"

text \<open>
  An emitted file. \<open>facadeModuleId\<close> is null or undefined for a file that is not an entry
  point; \<open>code\<close> and \<open>map\<close> are optional. The file is a chunk: its \<open>imports\<close> array is
  present.
\<close>

record 'm emitted_file =
  facadeModuleId :: "string option"
  fileName :: string
  imports_f :: "string list"
  code :: "string option"
  map_f :: "'m option"

type_synonym 'm output_bundle = "(string \<times> 'm emitted_file) list"

type_synonym 'm visitor = "'m env \<Rightarrow> node \<Rightarrow> magic_string \<Rightarrow> error + magic_string"

definition extract_req :: "node \<Rightarrow> literal option" where
  \<comment> \<open>the local \<open>req\<close> of the Babel-backed \<open>extract\<close> after its three tests\<close>
  "extract_req node =
     (let req = None;
          req = (if isImportDeclaration node then getImportSource node else req);
          req = (if isCallExpression node then getRequireSource node else req);
          req = (if isExportAllDeclaration node \<or> isExportNamedDeclaration node
                 then getExportSource node else req)
      in req)"

definition extract_babel :: "'m visitor" where
  \<comment> \<open>The visitor \<open>extract\<close> of the Babel-backed module. \<open>extname\<close> of a value that is not
      a string throws a TypeError.\<close>
  "extract_babel env node magicString =
     (case extract_req node of
        None \<Rightarrow> Inr magicString
      | Some req \<Rightarrow>
          (let start = lit_start req; stop = lit_end req in
           if falsy start \<or> falsy stop then Inl PositionError
           else case lit_value req of
             OtherValue \<Rightarrow> Inl TypeError
           | StringValue v \<Rightarrow>
               (case rewrite (extname env) v (mappings env) of
                  None \<Rightarrow> Inr magicString
                | Some newPath \<Rightarrow>
                    if newPath = [] then Inr magicString
                    else Inr (overwrite start stop (quote newPath) magicString))))"

definition extract_req_acorn :: "node \<Rightarrow> literal option" where
  \<comment> \<open>\<open>getRequireSource(node) || getImportSource(node) || getExportSource(node)\<close>\<close>
  "extract_req_acorn node =
     (case getRequireSource_acorn node of
        Some req \<Rightarrow> Some req
      | None \<Rightarrow>
          (case getImportSource_acorn node of
             Some req \<Rightarrow> Some req
           | None \<Rightarrow> getExportSource_acorn node))"

definition extract_acorn :: "'m visitor" where
  \<comment> \<open>The visitor \<open>extract\<close> of the second module: no test of the offsets.\<close>
  "extract_acorn env node magicString =
     (case extract_req_acorn node of
        None \<Rightarrow> Inr magicString
      | Some req \<Rightarrow>
          (let start = lit_start req; stop = lit_end req in
           case lit_value req of
             OtherValue \<Rightarrow> Inl TypeError
           | StringValue v \<Rightarrow>
               (case rewrite (extname env) v (mappings env) of
                  None \<Rightarrow> Inr magicString
                | Some newPath \<Rightarrow>
                    if newPath = [] then Inr magicString
                    else Inr (overwrite start stop (quote newPath) magicString))))"

fun traverse :: "(node \<Rightarrow> magic_string \<Rightarrow> error + magic_string) \<Rightarrow> node list \<Rightarrow> magic_string
    \<Rightarrow> error + magic_string" where
  \<comment> \<open>the walker calls the visitor on each node in turn; a throw ends the walk\<close>
  "traverse visit [] magicString = Inr magicString"
| "traverse visit (node # nodes) magicString =
     (case visit node magicString of
        Inl err \<Rightarrow> Inl err
      | Inr magicString' \<Rightarrow> traverse visit nodes magicString')"

definition rewrite_import :: "'m env \<Rightarrow> string \<Rightarrow> string" where
  \<comment> \<open>the callback given to \<open>file.imports.map\<close>\<close>
  "rewrite_import env imported =
     (if \<not> filter_f env (Some imported) then imported
      else or_else (rewrite (extname env) imported (mappings env)) imported)"

definition process_file :: "'m visitor \<Rightarrow> 'm env \<Rightarrow> 'm emitted_file \<Rightarrow> error + 'm emitted_file" where
  \<comment> \<open>The body of the loop between the filter test and the renaming of the key, as the
      update of the file object. \<open>rewrite\<close> of a \<open>facadeModuleId\<close> that is not a string throws
      in \<open>extname\<close>. The array returned by \<open>file.imports.map\<close> is not used.\<close>
  "process_file visit env file =
     (case facadeModuleId file of
        None \<Rightarrow> Inl TypeError
      | Some fid \<Rightarrow>
          (let file = file\<lparr>facadeModuleId :=
                        Some (or_else (rewrite (extname env) fid (mappings env)) fid)\<rparr>;
               file = file\<lparr>fileName :=
                        or_else (rewrite (extname env) (fileName file) (mappings env)) (fileName file)\<rparr>;
               unused = map (rewrite_import env) (imports_f file)
           in case code file of
                None \<Rightarrow> Inr file
              | Some text \<Rightarrow>
                  if text = [] then Inr file
                  else (case parse_walk env text of
                          Inl err \<Rightarrow> Inl err
                        | Inr nodes \<Rightarrow>
                            (case traverse (visit env) nodes (MagicString text) of
                               Inl err \<Rightarrow> Inl err
                             | Inr magicString \<Rightarrow>
                                 (let file = (if sourceMaps env
                                              then file\<lparr>map_f := Some (generateMap env magicString)\<rparr>
                                              else file)
                                  in Inr (file\<lparr>code := Some (toString env magicString)\<rparr>))))))"

definition new_key :: "'m env \<Rightarrow> string \<Rightarrow> string" where
  \<comment> \<open>\<open>rewrite(key, options.mappings) || key\<close>\<close>
  "new_key env key = or_else (rewrite (extname env) key (mappings env)) key"

fun process_entry :: "'m visitor \<Rightarrow> 'm env \<Rightarrow> string \<times> 'm emitted_file \<Rightarrow> 'm output_bundle \<Rightarrow> error + 'm output_bundle" where
  \<comment> \<open>One iteration of the loop. The bundle is an object: \<open>delete bundle[key]\<close> removes the
      key, the assignment replaces the value of a key that is present and adds the key at
      the end otherwise.\<close>
  "process_entry visit env (key, file) bundle =
     (if \<not> filter_f env (facadeModuleId file) then Inr bundle
      else (case process_file visit env file of
              Inl err \<Rightarrow> Inl err
            | Inr file' \<Rightarrow> Inr (AList.update (new_key env key) file' (AList.delete key bundle))))"

fun process_entries :: "'m visitor \<Rightarrow> 'm env \<Rightarrow> (string \<times> 'm emitted_file) list \<Rightarrow> 'm output_bundle \<Rightarrow> error + 'm output_bundle" where
  "process_entries visit env [] bundle = Inr bundle"
| "process_entries visit env (entry # files) bundle =
     (case process_entry visit env entry bundle of
        Inl err \<Rightarrow> Inl err
      | Inr bundle' \<Rightarrow> process_entries visit env files bundle')"

definition generateBundle_with :: "'m visitor \<Rightarrow> 'm env \<Rightarrow> 'm output_bundle \<Rightarrow> error + 'm output_bundle" where
  \<comment> \<open>\<open>files = Object.entries(bundle)\<close> is taken once, before the loop. Each key of the bundle
      holds a file object of its own.\<close>
  "generateBundle_with visit env bundle = process_entries visit env bundle bundle"

definition generateBundle :: "'m env \<Rightarrow> 'm output_bundle \<Rightarrow> error + 'm output_bundle" where
  "generateBundle = generateBundle_with extract_babel"

definition generateBundle_acorn :: "'m env \<Rightarrow> 'm output_bundle \<Rightarrow> error + 'm output_bundle" where
  "generateBundle_acorn = generateBundle_with extract_acorn"

section \<open>An example build\<close>

text \<open>
  A concrete instance of the collaborators, used to run the definitions: the filter
  excludes one module, the parser knows one source text, and the source map of a patcher
  is the list of its edits.
\<close>

definition dq :: char where
  "dq = CHR 0x22"

definition example_code :: string where
  \<comment> \<open>the text \<open>import x from "./util.js";\<close>\<close>
  "example_code = ''import x from '' @ [dq] @ ''./util.js'' @ [dq] @ '';''"

definition example_import :: node where
  "example_import = ImportDeclaration (StringLiteral (Some 14) (Some 25) ''./util.js'')"

definition example_parse_walk :: "string \<Rightarrow> error + node list" where
  "example_parse_walk text = (if text = example_code then Inr [example_import] else Inl ParseError)"

definition example_filter :: "string option \<Rightarrow> bool" where
  "example_filter path = (case path of None \<Rightarrow> False | Some p \<Rightarrow> p \<noteq> ''/src/vendor.js'')"

definition example_env :: "(edit list) env" where
  "example_env =
     \<lparr>extname = extname_spec, filter_f = example_filter, sourceMap = None,
      mappings = [''.js'' \<mapsto> ''.mjs''], parse_walk = example_parse_walk,
      toString = toText, generateMap = edits\<rparr>"

definition example_file :: "(edit list) emitted_file" where
  "example_file =
     \<lparr>facadeModuleId = Some ''/src/index.js'', fileName = ''index.js'',
      imports_f = [''./util.js''], code = Some example_code, map_f = None\<rparr>"

definition vendor_file :: "(edit list) emitted_file" where
  "vendor_file =
     \<lparr>facadeModuleId = Some ''/src/vendor.js'', fileName = ''vendor.js'',
      imports_f = [''./util.js''], code = Some example_code, map_f = None\<rparr>"

definition example_bundle :: "(edit list) output_bundle" where
  "example_bundle = [(''vendor.js'', vendor_file), (''index.js'', example_file)]"

definition renamed_file :: "(edit list) emitted_file" where
  \<comment> \<open>what the example file is after the Babel-backed pass\<close>
  "renamed_file =
     \<lparr>facadeModuleId = Some ''/src/index.mjs'', fileName = ''index.mjs'',
      imports_f = [''./util.js''],
      code = Some (''import x from '' @ quote ''./util.mjs'' @ '';''),
      map_f = Some [\<lparr>edit_start = Some 14, edit_end = Some 25,
                      replacementText = quote ''./util.mjs''\<rparr>]\<rparr>"

definition plain_file :: "(edit list) emitted_file" where
  \<comment> \<open>a file without source text\<close>
  "plain_file =
     \<lparr>facadeModuleId = Some ''/src/a.js'', fileName = ''a.js'',
      imports_f = [], code = None, map_f = None\<rparr>"

definition plain_renamed :: "(edit list) emitted_file" where
  \<comment> \<open>what the file without source text is after the pass\<close>
  "plain_renamed =
     \<lparr>facadeModuleId = Some ''/src/a.mjs'', fileName = ''a.mjs'',
      imports_f = [], code = None, map_f = None\<rparr>"

definition collision_bundle :: "(edit list) output_bundle" where
  \<comment> \<open>a bundle in which the rewritten key of a participating file is the key of an
      excluded file\<close>
  "collision_bundle = [(''vendor.mjs'', vendor_file), (''vendor.js'', plain_file)]"

definition positionless_import :: node where
  \<comment> \<open>an import whose source literal carries no offsets\<close>
  "positionless_import = ImportDeclaration (StringLiteral None None ''./util.js'')"

definition positionless_env :: "(edit list) env" where
  \<comment> \<open>the example with a parser that leaves the offsets out\<close>
  "positionless_env = example_env\<lparr>parse_walk := (\<lambda>text. Inr [positionless_import])\<rparr>"

definition identity_env :: "(edit list) env" where
  \<comment> \<open>the example with a mapping of \<open>.js\<close> to itself\<close>
  "identity_env = example_env\<lparr>mappings := [''.js'' \<mapsto> ''.js'']\<rparr>"

section \<open>Properties of the rewrite rule\<close>



lemma extname_spec_examples:
  "extname_spec ''foo'' = []"
  "extname_spec ''index.js'' = ''.js''"
  "extname_spec ''./util.js'' = ''.js''"
  "extname_spec ''style.css'' = ''.css''"
  "extname_spec ''vendor.js'' = ''.js''"
  "extname_spec ''a.js'' = ''.js''"
  "extname_spec ''/src/index.js'' = ''.js''"
  "extname_spec ''./a.css'' = ''.css''"
  by (simp_all add: extname_spec_def)







text \<open>
  C9. For every path whose extension is empty and every mapping that has the empty string
  as a key, \<open>rewrite\<close> returns the mapped value alone: \<open>slice(0, -0)\<close> is the empty string.
\<close>

theorem rewrite_empty_extension_discards_path:
  assumes "e p = []" and "m [] = Some v"
  shows "rewrite e p m = Some v"
proof -
  have "slice p 0 (- int (length (e p))) = []"
    using assms(1) by (simp add: slice_def)
  with assms show ?thesis
    by (simp add: rewrite_def)
qed

theorem rewrite_empty_extension_discards_path_witness:
  "extname_spec ''foo'' = [] \<and> rewrite extname_spec ''foo'' [[] \<mapsto> ''.js''] = Some ''.js''"
  using rewrite_empty_extension_discards_path [of extname_spec "''foo''" "[[] \<mapsto> ''.js'']" "''.js''"]
  by (simp add: extname_spec_examples)

section \<open>Properties of the call-form extractors\<close>

lemma getRequireSource_iff:
  "(getRequireSource (CallExpression callee args) = Some l)
     = (\<exists>more. args = Some (Lit l # more) \<and> isStringLiteral l)"
  by (auto simp: isEmpty_def isLiteral_def Let_def
      split: option.splits list.splits expr.splits literal.splits)

lemma getRequireSource_acorn_iff:
  "(getRequireSource_acorn (CallExpression callee args) = Some l)
     = (callee = Identifier ''require''
        \<and> (\<exists>more. args = Some (Lit l # more) \<and> isESTreeLiteral l))"
  by (auto simp: isEmpty_def split: option.splits list.splits expr.splits literal.splits)

text \<open>
  C4. For every call expression, the Babel-backed \<open>getRequireSource\<close> yields a literal exactly
  when the call has at least one argument and the first argument is a string literal, and
  it yields that literal, whatever the callee is.
\<close>

theorem getRequireSource_first_string_literal:
  "(getRequireSource (CallExpression callee args) = Some l)
     = (\<exists>more. args = Some (Lit l # more) \<and> isStringLiteral l)"
  by (rule getRequireSource_iff)

theorem getRequireSource_first_string_literal_witness:
  "getRequireSource (CallExpression (Identifier ''foo'')
       (Some [Lit (StringLiteral (Some 4) (Some 12) ''./x.js'')]))
     = Some (StringLiteral (Some 4) (Some 12) ''./x.js'')
   \<and> getRequireSource (CallExpression (Identifier ''require'') (Some [])) = None
   \<and> getRequireSource (CallExpression (Identifier ''require'') (Some [Identifier ''name''])) = None"
  using getRequireSource_first_string_literal [of "Identifier ''foo''"
      "Some [Lit (StringLiteral (Some 4) (Some 12) ''./x.js'')]"
      "StringLiteral (Some 4) (Some 12) ''./x.js''"]
  by (simp add: isEmpty_def isLiteral_def)

text \<open>
  C8, as amended. The two modules differ on call expressions. The Babel-backed
  \<open>getRequireSource\<close> yields the first argument whenever it is a string literal, for any
  callee; the \<open>getRequireSource\<close> of the second module yields the first argument only when,
  in addition, the callee is the identifier \<open>require\<close>. On a call of \<open>require\<close> with a string
  literal as first argument, each yields the first argument of the node it is given.
\<close>

theorem getRequireSource_acorn_only_require:
  "((getRequireSource (CallExpression callee args) = Some l)
      = (\<exists>more. args = Some (Lit l # more) \<and> isStringLiteral l))
   \<and> ((getRequireSource_acorn (CallExpression callee args') = Some l')
      = (callee = Identifier ''require''
         \<and> (\<exists>more. args' = Some (Lit l' # more) \<and> isESTreeLiteral l')))"
  by (simp only: getRequireSource_iff getRequireSource_acorn_iff)

theorem getRequireSource_acorn_only_require_witness:
  "getRequireSource (CallExpression (Identifier ''require'')
       (Some [Lit (StringLiteral (Some 8) (Some 16) ''./x.js'')]))
     = Some (StringLiteral (Some 8) (Some 16) ''./x.js'')
   \<and> getRequireSource_acorn (CallExpression (Identifier ''require'')
       (Some [Lit (Literal (Some 8) (Some 16) (StringValue ''./x.js''))]))
     = Some (Literal (Some 8) (Some 16) (StringValue ''./x.js''))"
  using getRequireSource_acorn_only_require [of "Identifier ''require''"
      "Some [Lit (StringLiteral (Some 8) (Some 16) ''./x.js'')]"
      "StringLiteral (Some 8) (Some 16) ''./x.js''"
      "Some [Lit (Literal (Some 8) (Some 16) (StringValue ''./x.js''))]"
      "Literal (Some 8) (Some 16) (StringValue ''./x.js'')"]
  by simp

text \<open>
  The statement of C8 fails on the call \<open>foo('./x.js')\<close>: the Babel-backed extractor yields
  the literal of the Babel node, the extractor of the second module yields nothing, neither
  on the ESTree node of the same call nor on the Babel node.
\<close>

theorem getRequireSource_differs_counterexample:
  "getRequireSource (CallExpression (Identifier ''foo'')
       (Some [Lit (StringLiteral (Some 4) (Some 12) ''./x.js'')]))
     = Some (StringLiteral (Some 4) (Some 12) ''./x.js'')
   \<and> getRequireSource_acorn (CallExpression (Identifier ''foo'')
       (Some [Lit (Literal (Some 4) (Some 12) (StringValue ''./x.js''))]))
     = None
   \<and> getRequireSource_acorn (CallExpression (Identifier ''foo'')
       (Some [Lit (StringLiteral (Some 4) (Some 12) ''./x.js'')]))
     = None"
  by (simp add: isEmpty_def isLiteral_def)

section \<open>Running the example\<close>

lemma example_rewrites:
  "rewrite extname_spec ''/src/index.js'' [''.js'' \<mapsto> ''.mjs''] = Some ''/src/index.mjs''"
  "rewrite extname_spec ''index.js'' [''.js'' \<mapsto> ''.mjs''] = Some ''index.mjs''"
  "rewrite extname_spec ''./util.js'' [''.js'' \<mapsto> ''.mjs''] = Some ''./util.mjs''"
  by (simp_all add: rewrite_def extname_spec_examples slice_def)

lemma example_env_fields:
  "mappings example_env = [''.js'' \<mapsto> ''.mjs'']"
  "extname example_env = extname_spec"
  "filter_f example_env = example_filter"
  "parse_walk example_env = example_parse_walk"
  "toString example_env = toText"
  "generateMap example_env = edits"
  "sourceMaps example_env"
  by (simp_all add: example_env_def sourceMaps_def)

lemma example_extract:
  "extract_babel example_env example_import (MagicString example_code)
     = Inr \<lparr>original = example_code,
            edits = [\<lparr>edit_start = Some 14, edit_end = Some 25,
                      replacementText = quote ''./util.mjs''\<rparr>]\<rparr>"
  by (simp add: extract_babel_def extract_req_def example_import_def example_env_fields falsy_def
      example_rewrites overwrite_def MagicString_def getExportSource_def)

lemma example_toText:
  "toText \<lparr>original = example_code,
            edits = [\<lparr>edit_start = Some 14, edit_end = Some 25,
                      replacementText = quote ''./util.mjs''\<rparr>]\<rparr>
     = ''import x from '' @ quote ''./util.mjs'' @ '';''"
  apply (simp add: toText_def)
  apply (simp add: apply_edit_def example_code_def dq_def quote_def)
  done

lemma example_process_file:
  "process_file extract_babel example_env example_file = Inr renamed_file"
proof -
  have c: "example_code \<noteq> []" by (simp add: example_code_def)
  show ?thesis
    unfolding process_file_def
    by (simp add: example_file_def example_env_fields c example_rewrites or_else_def Let_def
        example_parse_walk_def example_extract example_toText renamed_file_def)
qed

section \<open>The imports of a file\<close>

text \<open>
  C2 does not hold of the code. Whenever the processing of a file returns, the imports list
  of the file is the list it had before: the array built by \<open>file.imports.map\<close> is dropped.
\<close>

theorem process_file_keeps_imports:
  assumes "process_file visit env file = Inr file'"
  shows "imports_f file' = imports_f file"
proof (cases "facadeModuleId file")
  case None
  with assms show ?thesis by (simp add: process_file_def)
next
  case (Some fid)
  with assms show ?thesis
    by (auto simp: process_file_def Let_def split: option.splits sum.splits if_splits)
qed

theorem process_file_keeps_imports_witness:
  "process_file extract_babel example_env example_file = Inr renamed_file
   \<and> imports_f renamed_file = [''./util.js'']
   \<and> map (rewrite_import example_env) (imports_f example_file) = [''./util.mjs'']"
proof -
  have kept: "imports_f renamed_file = [''./util.js'']"
    using process_file_keeps_imports [OF example_process_file] by (simp add: example_file_def)
  have expected: "map (rewrite_import example_env) (imports_f example_file) = [''./util.mjs'']"
    by (simp add: example_file_def rewrite_import_def example_env_fields example_filter_def
        example_rewrites or_else_def)
  from example_process_file kept expected show ?thesis by blast
qed

section \<open>The visitors\<close>

lemma extract_babel_rewritten:
  "extract_req node = Some req \<Longrightarrow> lit_value req = StringValue v \<Longrightarrow>
   \<not> falsy (lit_start req) \<Longrightarrow> \<not> falsy (lit_end req) \<Longrightarrow>
   rewrite (extname env) v (mappings env) = Some newPath \<Longrightarrow> newPath \<noteq> [] \<Longrightarrow>
   extract_babel env node ms
     = Inr (ms\<lparr>edits := edits ms @ [\<lparr>edit_start = lit_start req, edit_end = lit_end req,
                                      replacementText = CHR 0x27 # newPath @ [CHR 0x27]\<rparr>]\<rparr>)"
  by (simp add: extract_babel_def overwrite_def quote_def)

lemma extract_babel_no_match:
  "extract_req node = Some req \<Longrightarrow> lit_value req = StringValue v \<Longrightarrow>
   \<not> falsy (lit_start req) \<Longrightarrow> \<not> falsy (lit_end req) \<Longrightarrow>
   rewrite (extname env) v (mappings env) = None \<Longrightarrow>
   extract_babel env node ms = Inr ms"
  by (simp add: extract_babel_def)

lemma extract_acorn_rewritten:
  "extract_req_acorn node = Some req \<Longrightarrow> lit_value req = StringValue v \<Longrightarrow>
   rewrite (extname env) v (mappings env) = Some newPath \<Longrightarrow> newPath \<noteq> [] \<Longrightarrow>
   extract_acorn env node ms
     = Inr (ms\<lparr>edits := edits ms @ [\<lparr>edit_start = lit_start req, edit_end = lit_end req,
                                      replacementText = CHR 0x27 # newPath @ [CHR 0x27]\<rparr>]\<rparr>)"
  by (simp add: extract_acorn_def overwrite_def quote_def)

lemma extract_acorn_no_match:
  "extract_req_acorn node = Some req \<Longrightarrow> lit_value req = StringValue v \<Longrightarrow>
   rewrite (extname env) v (mappings env) = None \<Longrightarrow>
   extract_acorn env node ms = Inr ms"
  by (simp add: extract_acorn_def)

text \<open>
  C3, as amended. For every reference extracted from a node whose value is a string: if the
  rewrite rule returns a non-empty replacement, the visitor records one edit at the span of
  the reference whose replacement text is a single quote, the rewritten path and a single
  quote, whatever quoting the source text has; if the rule returns no match, the patcher is
  left as it is, so that the text of the span is unchanged. In the Babel-backed module this
  is under its test of the offsets (both truthy); the second module has no such test.
\<close>

theorem extract_records_single_quoted_edit:
  "lit_value req = StringValue v \<longrightarrow>
     (extract_req node = Some req \<and> \<not> falsy (lit_start req) \<and> \<not> falsy (lit_end req) \<longrightarrow>
        (\<forall>newPath. rewrite (extname env) v (mappings env) = Some newPath \<and> newPath \<noteq> [] \<longrightarrow>
           extract_babel env node ms
             = Inr (ms\<lparr>edits := edits ms @ [\<lparr>edit_start = lit_start req, edit_end = lit_end req,
                        replacementText = CHR 0x27 # newPath @ [CHR 0x27]\<rparr>]\<rparr>))
        \<and> (rewrite (extname env) v (mappings env) = None \<longrightarrow> extract_babel env node ms = Inr ms))
   \<and> (extract_req_acorn node = Some req \<longrightarrow>
        (\<forall>newPath. rewrite (extname env) v (mappings env) = Some newPath \<and> newPath \<noteq> [] \<longrightarrow>
           extract_acorn env node ms
             = Inr (ms\<lparr>edits := edits ms @ [\<lparr>edit_start = lit_start req, edit_end = lit_end req,
                        replacementText = CHR 0x27 # newPath @ [CHR 0x27]\<rparr>]\<rparr>))
        \<and> (rewrite (extname env) v (mappings env) = None \<longrightarrow> extract_acorn env node ms = Inr ms))"
  by (simp add: extract_babel_rewritten extract_babel_no_match extract_acorn_rewritten
      extract_acorn_no_match)

lemma example_req:
  "extract_req example_import = Some (StringLiteral (Some 14) (Some 25) ''./util.js'')"
  by (simp add: extract_req_def example_import_def)

theorem extract_records_single_quoted_edit_witness:
  "extract_babel example_env example_import (MagicString example_code)
     = Inr ((MagicString example_code)\<lparr>edits := edits (MagicString example_code) @
          [\<lparr>edit_start = Some 14, edit_end = Some 25,
            replacementText = CHR 0x27 # ''./util.mjs'' @ [CHR 0x27]\<rparr>]\<rparr>)"
  using extract_records_single_quoted_edit [of "StringLiteral (Some 14) (Some 25) ''./util.js''"
      "''./util.js''" example_import example_env "MagicString example_code"]
  by (simp add: example_req falsy_def example_env_fields example_rewrites)

text \<open>
  The statement of C3 fails on a double-quoted specifier: for \<open>import x from "./util.js";\<close>
  the recorded replacement text is \<open>'./util.mjs'\<close>, while the quoting character of the
  source text at the span is the double quote.
\<close>

theorem extract_quote_counterexample:
  "extract_req example_import = Some (StringLiteral (Some 14) (Some 25) ''./util.js'')
   \<and> rewrite (extname example_env) ''./util.js'' (mappings example_env) = Some ''./util.mjs''
   \<and> example_code ! 14 = CHR 0x22
   \<and> extract_babel example_env example_import (MagicString example_code)
       = Inr \<lparr>original = example_code,
              edits = [\<lparr>edit_start = Some 14, edit_end = Some 25,
                        replacementText = CHR 0x27 # ''./util.mjs'' @ [CHR 0x27]\<rparr>]\<rparr>
   \<and> CHR 0x27 # ''./util.mjs'' @ [CHR 0x27]
       \<noteq> (example_code ! 14) # ''./util.mjs'' @ [example_code ! 14]"
proof -
  have q: "example_code ! 14 = CHR 0x22" by (simp add: example_code_def dq_def)
  have x: "extract_babel example_env example_import (MagicString example_code)
       = Inr \<lparr>original = example_code,
              edits = [\<lparr>edit_start = Some 14, edit_end = Some 25,
                        replacementText = CHR 0x27 # ''./util.mjs'' @ [CHR 0x27]\<rparr>]\<rparr>"
    by (simp add: example_extract quote_def)
  show ?thesis
    by (simp add: example_req example_env_fields example_rewrites q x)
qed

section \<open>Malformed offsets\<close>

lemma extract_babel_falsy:
  "extract_req node = Some req \<Longrightarrow> falsy (lit_start req) \<or> falsy (lit_end req) \<Longrightarrow>
   extract_babel env node ms = Inl PositionError"
  by (simp add: extract_babel_def)

lemma traverse_throws:
  "node \<in> set nodes \<Longrightarrow> (\<And>ms. \<exists>err. visit node ms = Inl err) \<Longrightarrow>
   \<exists>err. traverse visit nodes ms = Inl err"
proof (induction nodes arbitrary: ms)
  case Nil
  then show ?case by simp
next
  case (Cons n ns)
  show ?case
  proof (cases "visit n ms")
    case (Inl err)
    then show ?thesis by simp
  next
    case (Inr ms')
    from Cons.prems(2) [of ms] Inr have "node \<noteq> n" by auto
    with Cons.prems(1) have "node \<in> set ns" by simp
    with Cons.IH Cons.prems(2) Inr show ?thesis by simp
  qed
qed

lemma process_file_throws:
  assumes "code file = Some text" "text \<noteq> []" "parse_walk env text = Inr nodes"
    "node \<in> set nodes" "\<And>ms. \<exists>err. visit env node ms = Inl err"
  shows "\<exists>err. process_file visit env file = Inl err"
proof (cases "facadeModuleId file")
  case None
  then show ?thesis by (simp add: process_file_def)
next
  case (Some fid)
  from traverse_throws [OF assms(4), of "visit env" "MagicString text"] assms(5)
  obtain err where "traverse (visit env) nodes (MagicString text) = Inl err" by blast
  with Some assms(1-3) show ?thesis by (simp add: process_file_def Let_def)
qed

lemma process_entries_throws:
  "entry \<in> set files \<Longrightarrow> (\<And>b. \<exists>err. process_entry visit env entry b = Inl err) \<Longrightarrow>
   \<exists>err. process_entries visit env files b0 = Inl err"
proof (induction files arbitrary: b0)
  case Nil
  then show ?case by simp
next
  case (Cons x xs)
  show ?case
  proof (cases "process_entry visit env x b0")
    case (Inl err)
    then show ?thesis by simp
  next
    case (Inr b')
    from Cons.prems(2) [of b0] Inr have "entry \<noteq> x" by auto
    with Cons.prems(1) have "entry \<in> set xs" by simp
    with Cons.IH Cons.prems(2) Inr show ?thesis by simp
  qed
qed

lemma generateBundle_throws:
  assumes "(key, file) \<in> set bundle" "filter_f env (facadeModuleId file)"
    "code file = Some text" "text \<noteq> []" "parse_walk env text = Inr nodes"
    "node \<in> set nodes" "\<And>ms. \<exists>err. visit env node ms = Inl err"
  shows "\<exists>err. generateBundle_with visit env bundle = Inl err"
proof -
  from process_file_throws [OF assms(3-6), of visit] assms(7)
  obtain err where "process_file visit env file = Inl err" by blast
  with assms(2) have "\<And>b. \<exists>err. process_entry visit env (key, file) b = Inl err" by simp
  with process_entries_throws [OF assms(1)] show ?thesis
    unfolding generateBundle_with_def by blast
qed

text \<open>
  C5, as amended. In the Babel-backed module, for every extracted reference whose start or
  end offset is undefined, the visitor throws the error of the malformed offsets; the
  throw ends the walk, and the whole pass fails for every bundle that holds a participating
  file whose code has such a node.
\<close>

theorem extract_babel_undefined_position_throws:
  assumes "extract_req node = Some req" and "lit_start req = None \<or> lit_end req = None"
  shows "extract_babel env node ms = Inl PositionError
    \<and> (\<forall>nodes. traverse (extract_babel env) (node # nodes) ms = Inl PositionError)
    \<and> (\<forall>bundle key file text nodes.
          (key, file) \<in> set bundle \<and> filter_f env (facadeModuleId file)
          \<and> code file = Some text \<and> text \<noteq> [] \<and> parse_walk env text = Inr nodes
          \<and> node \<in> set nodes
          \<longrightarrow> (\<exists>err. generateBundle env bundle = Inl err))"
proof -
  from assms(2) have f: "falsy (lit_start req) \<or> falsy (lit_end req)"
    by (auto simp: falsy_def)
  have x: "extract_babel env node ms' = Inl PositionError" for ms'
    using extract_babel_falsy [OF assms(1) f] .
  have "\<exists>err. generateBundle env b = Inl err"
    if "(k, f) \<in> set b" "filter_f env (facadeModuleId f)"
      "code f = Some t" "t \<noteq> []" "parse_walk env t = Inr ns" "node \<in> set ns"
    for b k f t ns
    unfolding generateBundle_def
    using generateBundle_throws [OF that, of extract_babel] x by blast
  with x show ?thesis by auto
qed

theorem extract_babel_undefined_position_throws_witness:
  "extract_req positionless_import = Some (StringLiteral None None ''./util.js'')
   \<and> extract_babel positionless_env positionless_import (MagicString example_code) = Inl PositionError
   \<and> traverse (extract_babel positionless_env) [positionless_import, example_import]
         (MagicString example_code) = Inl PositionError
   \<and> (\<exists>err. generateBundle positionless_env example_bundle = Inl err)"
proof -
  have r: "extract_req positionless_import = Some (StringLiteral None None ''./util.js'')"
    by (simp add: extract_req_def positionless_import_def)
  have c: "example_code \<noteq> []" by (simp add: example_code_def)
  have u: "lit_start (StringLiteral None None ''./util.js'') = None
      \<or> lit_end (StringLiteral None None ''./util.js'') = None" by simp
  note t = extract_babel_undefined_position_throws [OF r u, of positionless_env "MagicString example_code"]
  have h: "(''index.js'', example_file) \<in> set example_bundle
      \<and> filter_f positionless_env (facadeModuleId example_file)
      \<and> code example_file = Some example_code \<and> example_code \<noteq> []
      \<and> parse_walk positionless_env example_code = Inr [positionless_import]
      \<and> positionless_import \<in> set [positionless_import]"
    by (simp add: example_bundle_def positionless_env_def example_env_def example_file_def
        example_filter_def c)
  from t have "\<exists>err. generateBundle positionless_env example_bundle = Inl err"
    using h by blast
  with t r show ?thesis by simp
qed

text \<open>
  The statement of C5 fails for the second module: a reference without offsets whose
  extension is not mapped is passed over, and the walk returns normally.
\<close>

theorem extract_acorn_undefined_position_counterexample:
  "extract_req_acorn (ImportDeclaration (Literal None None (StringValue ''./a.css'')))
     = Some (Literal None None (StringValue ''./a.css''))
   \<and> lit_start (Literal None None (StringValue ''./a.css'')) = None
   \<and> lit_end (Literal None None (StringValue ''./a.css'')) = None
   \<and> extract_acorn example_env (ImportDeclaration (Literal None None (StringValue ''./a.css'')))
         (MagicString example_code) = Inr (MagicString example_code)
   \<and> traverse (extract_acorn example_env)
         [ImportDeclaration (Literal None None (StringValue ''./a.css''))]
         (MagicString example_code) = Inr (MagicString example_code)"
  by (simp add: extract_req_acorn_def extract_acorn_def example_env_fields rewrite_def
      extname_spec_examples)

text \<open>
  C10. In the Babel-backed module, for every extracted reference whose start offset is 0,
  whatever its end offset, the visitor throws the error of the malformed offsets: the test
  is on the truthiness of the offsets.
\<close>

theorem extract_babel_zero_start_throws:
  "extract_req node = Some req \<Longrightarrow> lit_start req = Some 0 \<Longrightarrow>
   extract_babel env node ms = Inl PositionError"
  by (simp add: extract_babel_def falsy_def)

theorem extract_babel_zero_start_throws_witness:
  "extract_req (ImportDeclaration (StringLiteral (Some 0) (Some 11) ''./util.js''))
     = Some (StringLiteral (Some 0) (Some 11) ''./util.js'')
   \<and> extract_babel example_env (ImportDeclaration (StringLiteral (Some 0) (Some 11) ''./util.js''))
         (MagicString example_code) = Inl PositionError"
proof -
  have r: "extract_req (ImportDeclaration (StringLiteral (Some 0) (Some 11) ''./util.js''))
     = Some (StringLiteral (Some 0) (Some 11) ''./util.js'')"
    by (simp add: extract_req_def)
  from extract_babel_zero_start_throws [OF r, of example_env "MagicString example_code"] r
  show ?thesis by simp
qed

section \<open>The output collection\<close>

lemma example_new_key: "new_key example_env ''index.js'' = ''index.mjs''"
  by (simp add: new_key_def example_env_fields example_rewrites or_else_def)

lemma example_filter_values:
  "\<not> filter_f example_env (facadeModuleId vendor_file)"
  "filter_f example_env (facadeModuleId example_file)"
  by (simp_all add: example_env_fields example_filter_def vendor_file_def example_file_def)

lemma example_generateBundle:
  "generateBundle_with extract_babel example_env example_bundle
     = Inr [(''vendor.js'', vendor_file), (''index.mjs'', renamed_file)]"
  by (simp add: generateBundle_with_def example_bundle_def example_filter_values
      example_process_file example_new_key)

lemma process_entries_frame:
  "\<forall>(k, f) \<in> set files. filter_f env (facadeModuleId f) \<longrightarrow> k \<noteq> key \<and> new_key env k \<noteq> key \<Longrightarrow>
   process_entries visit env files b = Inr b' \<Longrightarrow> map_of b' key = map_of b key"
proof (induction files arbitrary: b)
  case Nil
  then show ?case by simp
next
  case (Cons x xs)
  obtain k f where x: "x = (k, f)" by (cases x)
  from Cons.prems(2) obtain b1 where
    step: "process_entry visit env x b = Inr b1" and rest: "process_entries visit env xs b1 = Inr b'"
    by (auto split: sum.splits)
  from Cons.prems(1) have "\<forall>(k, f) \<in> set xs.
      filter_f env (facadeModuleId f) \<longrightarrow> k \<noteq> key \<and> new_key env k \<noteq> key" by simp
  from Cons.IH [OF this rest] have later: "map_of b' key = map_of b1 key" .
  have "map_of b1 key = map_of b key"
  proof (cases "filter_f env (facadeModuleId f)")
    case False
    with step x show ?thesis by simp
  next
    case True
    with Cons.prems(1) x have ne: "k \<noteq> key" "new_key env k \<noteq> key" by auto
    from step x True obtain f' where "b1 = AList.update (new_key env k) f' (AList.delete k b)"
      by (auto split: sum.splits)
    with ne show ?thesis by (simp add: update_conv' delete_conv')
  qed
  with later show ?case by simp
qed

text \<open>
  C6, as amended. For every file whose facade module id fails the filter, the iteration of
  the loop on the file returns the bundle as it is. After a whole pass that returns, the
  file is under its key with all of its fields as they were, provided that no participating
  file is renamed to that key (the keys of the bundle being distinct, as the keys of an
  object are).
\<close>

theorem skipped_file_untouched:
  assumes "\<not> filter_f env (facadeModuleId file)"
  shows "process_entry visit env (key, file) bundle = Inr bundle
    \<and> (distinct (map fst bundle) \<and> (key, file) \<in> set bundle
       \<and> (\<forall>(k, f) \<in> set bundle. filter_f env (facadeModuleId f) \<longrightarrow> new_key env k \<noteq> key)
       \<and> generateBundle_with visit env bundle = Inr bundle'
       \<longrightarrow> map_of bundle' key = Some file)"
proof -
  have "map_of bundle' key = Some file"
    if d: "distinct (map fst bundle)" and m: "(key, file) \<in> set bundle"
      and n: "\<forall>(k, f) \<in> set bundle. filter_f env (facadeModuleId f) \<longrightarrow> new_key env k \<noteq> key"
      and g: "generateBundle_with visit env bundle = Inr bundle'"
  proof -
    from d m have here: "map_of bundle key = Some file" by simp
    have "k \<noteq> key" if "(k, f) \<in> set bundle" "filter_f env (facadeModuleId f)" for k f
    proof
      assume "k = key"
      with that(1) d m have "f = file" by (metis eq_key_imp_eq_value)
      with that(2) assms show False by simp
    qed
    with n have "\<forall>(k, f) \<in> set bundle.
        filter_f env (facadeModuleId f) \<longrightarrow> k \<noteq> key \<and> new_key env k \<noteq> key" by auto
    from process_entries_frame [OF this] g here show ?thesis
      by (simp add: generateBundle_with_def)
  qed
  with assms show ?thesis by simp
qed

theorem skipped_file_untouched_witness:
  "\<not> filter_f example_env (facadeModuleId vendor_file)
   \<and> process_entry extract_babel example_env (''vendor.js'', vendor_file) example_bundle
       = Inr example_bundle
   \<and> generateBundle_with extract_babel example_env example_bundle
       = Inr [(''vendor.js'', vendor_file), (''index.mjs'', renamed_file)]
   \<and> map_of [(''vendor.js'', vendor_file), (''index.mjs'', renamed_file)] ''vendor.js''
       = Some vendor_file"
proof -
  have h: "distinct (map fst example_bundle) \<and> (''vendor.js'', vendor_file) \<in> set example_bundle
      \<and> (\<forall>(k, f) \<in> set example_bundle.
            filter_f example_env (facadeModuleId f) \<longrightarrow> new_key example_env k \<noteq> ''vendor.js'')"
    by (simp add: example_bundle_def example_filter_values example_new_key)
  from skipped_file_untouched [OF example_filter_values(1), of extract_babel "''vendor.js''"
      example_bundle "[(''vendor.js'', vendor_file), (''index.mjs'', renamed_file)]"]
    h example_generateBundle example_filter_values(1)
  show ?thesis by blast
qed

lemma collision_process_file:
  "process_file extract_babel example_env plain_file = Inr plain_renamed"
proof -
  have x: "extname_spec ''/src/a.js'' = ''.js''" by (simp add: extname_spec_def)
  have r: "rewrite extname_spec ''a.js'' [''.js'' \<mapsto> ''.mjs''] = Some ''a.mjs''"
    "rewrite extname_spec ''/src/a.js'' [''.js'' \<mapsto> ''.mjs''] = Some ''/src/a.mjs''"
    by (simp_all add: rewrite_def extname_spec_examples x slice_def)
  show ?thesis
    by (simp add: process_file_def plain_file_def plain_renamed_def example_env_fields r or_else_def)
qed

text \<open>
  The statement of C6 fails when a participating file is renamed to the key of an excluded
  file: with the mapping of \<open>.js\<close> to \<open>.mjs\<close>, the excluded file under \<open>vendor.mjs\<close> is
  replaced by the participating file that was under \<open>vendor.js\<close>.
\<close>

theorem skipped_file_overwritten_counterexample:
  "(''vendor.mjs'', vendor_file) \<in> set collision_bundle
   \<and> \<not> filter_f example_env (facadeModuleId vendor_file)
   \<and> generateBundle example_env collision_bundle = Inr [(''vendor.mjs'', plain_renamed)]
   \<and> map_of [(''vendor.mjs'', plain_renamed)] ''vendor.mjs'' \<noteq> Some vendor_file"
proof -
  have k: "new_key example_env ''vendor.js'' = ''vendor.mjs''"
    by (simp add: new_key_def example_env_fields rewrite_def extname_spec_examples slice_def or_else_def)
  have f: "filter_f example_env (facadeModuleId plain_file)"
    by (simp add: example_env_fields example_filter_def plain_file_def)
  have g: "generateBundle example_env collision_bundle = Inr [(''vendor.mjs'', plain_renamed)]"
    by (simp add: generateBundle_def generateBundle_with_def collision_bundle_def
        example_filter_values f collision_process_file k)
  have d: "plain_renamed \<noteq> vendor_file"
    by (simp add: plain_renamed_def vendor_file_def)
  from g d example_filter_values(1) show ?thesis by (simp add: collision_bundle_def)
qed

text \<open>
  C7, as amended. For every file that passes the filter and whose processing returns, the
  iteration removes the old key and puts the updated file under the key
  \<open>rewrite(key, mappings) || key\<close>: the rewritten key when the rule returns a non-empty string,
  the old key when the rule returns no match. Afterwards the file is under that key, and the
  old key is absent whenever the new key differs from it.
\<close>

theorem process_entry_renames_key:
  assumes "filter_f env (facadeModuleId file)" and "process_file visit env file = Inr file'"
  shows "process_entry visit env (key, file) bundle
      = Inr (AList.update (new_key env key) file' (AList.delete key bundle))
    \<and> map_of (AList.update (new_key env key) file' (AList.delete key bundle)) (new_key env key)
      = Some file'
    \<and> (new_key env key \<noteq> key \<longrightarrow>
        map_of (AList.update (new_key env key) file' (AList.delete key bundle)) key = None)
    \<and> (\<forall>k'. rewrite (extname env) key (mappings env) = Some k' \<and> k' \<noteq> [] \<longrightarrow>
          new_key env key = k')
    \<and> (rewrite (extname env) key (mappings env) = None \<longrightarrow> new_key env key = key)"
  using assms by (simp add: update_conv' delete_conv' new_key_def or_else_def)

theorem process_entry_renames_key_witness:
  "process_entry extract_babel example_env (''index.js'', example_file) example_bundle
     = Inr [(''vendor.js'', vendor_file), (''index.mjs'', renamed_file)]
   \<and> map_of [(''vendor.js'', vendor_file), (''index.mjs'', renamed_file)] ''index.mjs''
     = Some renamed_file
   \<and> map_of [(''vendor.js'', vendor_file), (''index.mjs'', renamed_file)] ''index.js'' = None"
proof -
  have u: "AList.update (new_key example_env ''index.js'') renamed_file
      (AList.delete ''index.js'' example_bundle)
      = [(''vendor.js'', vendor_file), (''index.mjs'', renamed_file)]"
    by (simp add: example_new_key example_bundle_def)
  from process_entry_renames_key [OF example_filter_values(2) example_process_file,
      of "''index.js''" example_bundle]
  show ?thesis unfolding u by (simp add: example_new_key)
qed

text \<open>
  The statement of C7 fails for a mapping of an extension to itself: the key \<open>a.js\<close> has a
  mapped extension, its rewritten key is \<open>a.js\<close>, and the file is under the old key after
  the iteration.
\<close>

theorem identity_mapping_key_counterexample:
  "rewrite (extname identity_env) ''a.js'' (mappings identity_env) = Some ''a.js''
   \<and> filter_f identity_env (facadeModuleId plain_file)
   \<and> process_entry extract_babel identity_env (''a.js'', plain_file) [(''a.js'', plain_file)]
       = Inr [(''a.js'', plain_file)]
   \<and> map_of [(''a.js'', plain_file)] ''a.js'' = Some plain_file"
proof -
  have e: "extname identity_env = extname_spec" "mappings identity_env = [''.js'' \<mapsto> ''.js'']"
    "filter_f identity_env = example_filter"
    by (simp_all add: identity_env_def example_env_def)
  have x: "extname_spec ''/src/a.js'' = ''.js''" by (simp add: extname_spec_def)
  have r: "rewrite extname_spec ''a.js'' [''.js'' \<mapsto> ''.js''] = Some ''a.js''"
    "rewrite extname_spec ''/src/a.js'' [''.js'' \<mapsto> ''.js''] = Some ''/src/a.js''"
    by (simp_all add: rewrite_def extname_spec_examples x slice_def)
  have f: "filter_f identity_env (facadeModuleId plain_file)"
    by (simp add: e example_filter_def plain_file_def)
  have p: "process_file extract_babel identity_env plain_file = Inr plain_file"
    by (simp add: process_file_def plain_file_def e r or_else_def)
  show ?thesis
    by (simp add: e r f [unfolded e] p [unfolded e] new_key_def or_else_def)
qed

end
